theory Spec2Isabelle
  imports Main
begin

section \<open>JavaScript values used by \<^verbatim>\<open>src/utils/logger.ts\<close>\<close>

text \<open>
  The object literals that \<^verbatim>\<open>logger.ts\<close> hands to the Elasticsearch client are kept as
  they are written: JSON values, objects being lists of key/value pairs in source order.
\<close>

datatype json =
    JNull
  | JBool bool
  | JNumber int
  | JString string
  | JArray "json list"
  | JObject "(string \<times> json) list"

text \<open>Property access \<^verbatim>\<open>o[k]\<close>; \<open>None\<close> stands for \<^verbatim>\<open>undefined\<close>.\<close>

fun get :: "string \<Rightarrow> json \<Rightarrow> json option" where
  "get k (JObject kvs) = map_of kvs k"
| "get k _ = None"

fun get_path :: "string list \<Rightarrow> json \<Rightarrow> json option" where
  "get_path [] j = Some j"
| "get_path (k # ks) j = (case get k j of None \<Rightarrow> None | Some j' \<Rightarrow> get_path ks j')"

text \<open>The own keys of an object, in order (\<^verbatim>\<open>Object.keys\<close>).\<close>

fun keys :: "json \<Rightarrow> string list" where
  "keys (JObject kvs) = map fst kvs"
| "keys _ = []"

subsection \<open>Numbers to strings, \<^verbatim>\<open>padStart\<close>\<close>

definition digit :: "nat \<Rightarrow> char" where
  "digit n = ''0123456789'' ! n"

text \<open>\<^verbatim>\<open>String(n)\<close> for a non-negative integer: its decimal digits.\<close>

fun String_nat :: "nat \<Rightarrow> string" where
  "String_nat n = (if n < 10 then [digit n] else String_nat (n div 10) @ [digit (n mod 10)])"

declare String_nat.simps [simp del]

text \<open>\<^verbatim>\<open>String(i)\<close> (and \<^verbatim>\<open>`${i}`\<close>) for an integer: a minus sign before a negative one.\<close>

definition String_int :: "int \<Rightarrow> string" where
  "String_int i = (if i < 0 then ''-'' @ String_nat (nat (- i)) else String_nat (nat i))"

text \<open>
  \<^verbatim>\<open>s.padStart(targetLength, padString)\<close>: a string already long enough, or an empty pad,
  leaves \<open>s\<close> as it is; otherwise the pad is repeated and cut to the missing length.
\<close>

definition padStart :: "nat \<Rightarrow> string \<Rightarrow> string \<Rightarrow> string" where
  "padStart targetLength padString s =
     (if targetLength \<le> length s \<or> padString = [] then s
      else take (targetLength - length s)
             (concat (replicate (targetLength - length s) padString)) @ s)"

subsection \<open>The local calendar date\<close>

text \<open>
  What \<^verbatim>\<open>new Date()\<close> yields, as far as the code reads it: the three local-time getters.
  \<open>getMonth\<close> counts from 0 (January), \<open>getDate\<close> is the day of the month.
\<close>

record Date =
  getFullYear :: int
  getMonth :: nat
  getDate :: nat

text \<open>Lines 17-20 of \<^verbatim>\<open>winstonLogger\<close>: the suffix \<^verbatim>\<open>`${year}.${month}.${day}`\<close>.\<close>

definition indexSuffix :: "Date \<Rightarrow> string" where
  "indexSuffix today =
     (let year = getFullYear today;
          month = padStart 2 ''0'' (String_nat (getMonth today + 1));
          day = padStart 2 ''0'' (String_nat (getDate today))
      in String_int year @ ''.'' @ month @ ''.'' @ day)"

text \<open>Lines 154-157 of \<^verbatim>\<open>checkElasticLoggingSetup\<close>: \<^verbatim>\<open>`logs-${year}.${month}.${day}`\<close>.\<close>

definition indexName :: "Date \<Rightarrow> string" where
  "indexName today =
     (let year = getFullYear today;
          month = padStart 2 ''0'' (String_nat (getMonth today + 1));
          day = padStart 2 ''0'' (String_nat (getDate today))
      in ''logs-'' @ String_int year @ ''.'' @ month @ ''.'' @ day)"

section \<open>The Elasticsearch client\<close>

text \<open>
  The client of \<^verbatim>\<open>@elastic/elasticsearch\<close> is an external collaborator: its methods are
  parameters of the model. Each method takes its request object and the state of the
  world behind the client, and either rejects with an error or resolves with a response,
  leaving a new state.
\<close>

datatype error = ResponseError nat | TimeoutError | ConnectionError

record HealthResponse =
  status :: string

type_synonym ('a, 's) api_call = "json \<Rightarrow> 's \<Rightarrow> (error + 'a) \<times> 's"

record 's Client =
  cluster_health :: "(HealthResponse, 's) api_call"
  ilm_getLifecycle :: "(json, 's) api_call"
  ilm_putLifecycle :: "(json, 's) api_call"
  indices_existsIndexTemplate :: "(bool, 's) api_call"
  indices_putIndexTemplate :: "(json, 's) api_call"
  indices_exists :: "(bool, 's) api_call"
  indices_create :: "(json, 's) api_call"

subsection \<open>A run: the backend state, the calls issued, the console\<close>

datatype api = ClusterHealth | IlmGetLifecycle | IlmPutLifecycle
  | IndicesExistsIndexTemplate | IndicesPutIndexTemplate | IndicesExists | IndicesCreate

datatype response = Health HealthResponse | Bool bool | Body json

record call =
  api :: api
  request :: json
  outcome :: "error + response"

datatype console_line = Log string | Error string error

record 's run =
  backend :: 's
  calls :: "call list"
  console :: "console_line list"

type_synonym ('a, 's) io = "'s run \<Rightarrow> (error + 'a) \<times> 's run"

text \<open>\<^verbatim>\<open>return v\<close>, sequencing of awaited steps, and \<^verbatim>\<open>try { m } catch (e) { h e }\<close>.\<close>

definition io_return :: "'a \<Rightarrow> ('a, 's) io" where
  "io_return v = (\<lambda>r. (Inr v, r))"

definition io_bind :: "('a, 's) io \<Rightarrow> ('a \<Rightarrow> ('b, 's) io) \<Rightarrow> ('b, 's) io" where
  "io_bind m f = (\<lambda>r. case m r of (Inl e, r') \<Rightarrow> (Inl e, r') | (Inr v, r') \<Rightarrow> f v r')"

definition io_catch :: "('a, 's) io \<Rightarrow> (error \<Rightarrow> ('a, 's) io) \<Rightarrow> ('a, 's) io" where
  "io_catch m h = (\<lambda>r. case m r of (Inl e, r') \<Rightarrow> h e r' | (Inr v, r') \<Rightarrow> (Inr v, r'))"

text \<open>
  \<^verbatim>\<open>await esClient.m(req)\<close>: the method runs on the backend, the call and its outcome are
  appended to the calls of the run, and a rejection is thrown.
\<close>

definition await :: "api \<Rightarrow> ('a \<Rightarrow> response) \<Rightarrow> ('a, 's) api_call \<Rightarrow> json \<Rightarrow> ('a, 's) io" where
  "await a wrap m req =
     (\<lambda>r. case m req (backend r) of
        (res, s') \<Rightarrow>
          (res, calls_update (\<lambda>cs. cs @ [\<lparr>api = a, request = req, outcome = map_sum id wrap res\<rparr>])
                  (r\<lparr>backend := s'\<rparr>)))"

definition console_log :: "string \<Rightarrow> (unit, 's) io" where
  "console_log msg = (\<lambda>r. (Inr (), console_update (\<lambda>ls. ls @ [Log msg]) r))"

definition console_error :: "string \<Rightarrow> error \<Rightarrow> (unit, 's) io" where
  "console_error msg e = (\<lambda>r. (Inr (), console_update (\<lambda>ls. ls @ [Error msg e]) r))"

text \<open>
  Running a step with both continuations given: \<open>S\<close> takes over when the step returns,
  \<open>F\<close> when it throws. Sequencing and \<^verbatim>\<open>try/catch\<close> are instances of it.
\<close>

definition run_k ::
  "('a, 's) io \<Rightarrow> 's run \<Rightarrow> ('a \<Rightarrow> 's run \<Rightarrow> 'b) \<Rightarrow> (error \<Rightarrow> 's run \<Rightarrow> 'b) \<Rightarrow> 'b" where
  "run_k m r S F = (case m r of (Inl e, r') \<Rightarrow> F e r' | (Inr v, r') \<Rightarrow> S v r')"

section \<open>\<^verbatim>\<open>checkElasticLoggingSetup\<close>\<close>

text \<open>The request of \<^verbatim>\<open>ilm.putLifecycle\<close>, lines 77-115.\<close>

definition logs_policy_request :: json where
  "logs_policy_request =
     JObject [
       (''name'', JString ''logs_policy''),
       (''body'', JObject [
         (''policy'', JObject [
           (''phases'', JObject [
             (''hot'', JObject [
               (''min_age'', JString ''0ms''),
               (''actions'', JObject [
                 (''rollover'', JObject [
                   (''max_age'', JString ''7d''),
                   (''max_size'', JString ''5gb'')])])]),
             (''warm'', JObject [
               (''min_age'', JString ''7d''),
               (''actions'', JObject [
                 (''shrink'', JObject [(''number_of_shards'', JNumber 1)]),
                 (''forcemerge'', JObject [(''max_num_segments'', JNumber 1)])])]),
             (''cold'', JObject [
               (''min_age'', JString ''30d''),
               (''actions'', JObject [])]),
             (''delete'', JObject [
               (''min_age'', JString ''90d''),
               (''actions'', JObject [(''delete'', JObject [])])])])])])]"

text \<open>The request of \<^verbatim>\<open>indices.putIndexTemplate\<close>, lines 128-148.\<close>

definition logs_template_request :: json where
  "logs_template_request =
     JObject [
       (''name'', JString ''logs_template''),
       (''body'', JObject [
         (''index_patterns'', JArray [JString ''logs-*'']),
         (''template'', JObject [
           (''settings'', JObject [
             (''number_of_shards'', JNumber 1),
             (''number_of_replicas'', JNumber 1),
             (''lifecycle.name'', JString ''logs_policy'')]),
           (''mappings'', JObject [
             (''properties'', JObject [
               (''@timestamp'', JObject [(''type'', JString ''date'')]),
               (''message'', JObject [(''type'', JString ''text'')]),
               (''level'', JObject [(''type'', JString ''keyword'')]),
               (''service'', JObject [(''type'', JString ''keyword'')])])])])])]"

text \<open>
  The function, lines 58-173. \<open>new_Client\<close> is the client constructor of the imported
  module, \<open>now\<close> is what \<^verbatim>\<open>new Date()\<close> yields at line 153 and \<open>s\<close> is the state of the
  backend when the call starts. The result is the value the promise resolves with
  (\<open>Inr\<close>) or the error it rejects with (\<open>Inl\<close>), together with the run: the backend left
  behind, the client calls issued and the console lines written, in order.
\<close>

definition checkElasticLoggingSetup ::
  "(string \<Rightarrow> 's Client) \<Rightarrow> Date \<Rightarrow> string \<Rightarrow> 's \<Rightarrow> (error + bool) \<times> 's run" where
  "checkElasticLoggingSetup new_Client now elasticsearchNode s =
    io_catch
     (let esClient = new_Client elasticsearchNode in
      io_bind (await ClusterHealth Health (cluster_health esClient) (JObject [])) (\<lambda>health.
      io_bind (console_log (''Elasticsearch health for logging: '' @ status health)) (\<lambda>_.
      io_bind
        (io_catch
          (io_bind (await IlmGetLifecycle Body (ilm_getLifecycle esClient)
                      (JObject [(''name'', JString ''logs_policy'')])) (\<lambda>_.
           console_log ''Using existing ILM policy for logs''))
          (\<lambda>error.
           io_bind (console_log ''Creating ILM policy for logs...'') (\<lambda>_.
           io_bind (await IlmPutLifecycle Body (ilm_putLifecycle esClient)
                      logs_policy_request) (\<lambda>_.
           console_log ''ILM policy created successfully'')))) (\<lambda>_.
      io_bind
        (io_catch
          (await IndicesExistsIndexTemplate Bool (indices_existsIndexTemplate esClient)
             (JObject [(''name'', JString ''logs_template'')]))
          (\<lambda>_. io_return False)) (\<lambda>templateExists.
      io_bind
        (if \<not> templateExists then
           io_bind (console_log ''Creating index template with ILM settings...'') (\<lambda>_.
           io_bind (await IndicesPutIndexTemplate Body (indices_putIndexTemplate esClient)
                      logs_template_request) (\<lambda>_.
           console_log ''Index template created successfully''))
         else io_return ()) (\<lambda>_.
      let today = now; indexName = indexName today in
      io_bind (await IndicesExists Bool (indices_exists esClient)
                 (JObject [(''index'', JString indexName)])) (\<lambda>indexExists.
      io_bind
        (if \<not> indexExists then
           io_bind (await IndicesCreate Body (indices_create esClient)
                      (JObject [(''index'', JString indexName)])) (\<lambda>_.
           console_log (''Created Elasticsearch index: '' @ indexName))
         else io_return ()) (\<lambda>_.
      io_return True))))))))
     (\<lambda>error.
      io_bind (console_error ''Failed to setup Elasticsearch logging:'' error) (\<lambda>_.
      io_return False))
     \<lparr>backend = s, calls = [], console = []\<rparr>"

text \<open>The calls that create something on the backend.\<close>

fun is_create :: "api \<Rightarrow> bool" where
  "is_create IlmPutLifecycle = True"
| "is_create IndicesPutIndexTemplate = True"
| "is_create IndicesCreate = True"
| "is_create _ = False"

text \<open>
  A call answered as by an empty backend whose calls succeed: the policy lookup is
  rejected, the two existence checks resolve with \<^verbatim>\<open>false\<close>, every other call resolves.
\<close>

definition answers_as_empty :: "call \<Rightarrow> bool" where
  "answers_as_empty c =
     (case api c of
        IlmGetLifecycle \<Rightarrow> isl (outcome c)
      | IndicesExistsIndexTemplate \<Rightarrow> outcome c = Inr (Bool False)
      | IndicesExists \<Rightarrow> outcome c = Inr (Bool False)
      | _ \<Rightarrow> \<not> isl (outcome c))"

text \<open>
  A backend that is already set up, seen through the client \<open>c\<close>: on every state of \<open>P\<close>
  the health probe and the three existence checks resolve, the checks report presence,
  and none of the four leaves \<open>P\<close>.
\<close>

definition already_set_up :: "'s Client \<Rightarrow> Date \<Rightarrow> ('s \<Rightarrow> bool) \<Rightarrow> bool" where
  "already_set_up c today P \<longleftrightarrow>
     (\<forall>s. P s \<longrightarrow>
        (\<exists>h. fst (cluster_health c (JObject []) s) = Inr h) \<and>
        P (snd (cluster_health c (JObject []) s)) \<and>
        (\<exists>p. fst (ilm_getLifecycle c (JObject [(''name'', JString ''logs_policy'')]) s) = Inr p) \<and>
        P (snd (ilm_getLifecycle c (JObject [(''name'', JString ''logs_policy'')]) s)) \<and>
        fst (indices_existsIndexTemplate c (JObject [(''name'', JString ''logs_template'')]) s)
          = Inr True \<and>
        P (snd (indices_existsIndexTemplate c (JObject [(''name'', JString ''logs_template'')]) s)) \<and>
        fst (indices_exists c (JObject [(''index'', JString (indexName today))]) s) = Inr True \<and>
        P (snd (indices_exists c (JObject [(''index'', JString (indexName today))]) s)))"

text \<open>
  One call of a client method, named by its \<open>api\<close>, with its answer as an outcome of the
  call log.
\<close>

definition perform :: "'s Client \<Rightarrow> api \<Rightarrow> json \<Rightarrow> 's \<Rightarrow> (error + response) \<times> 's" where
  "perform c a req s =
     (case a of
        ClusterHealth \<Rightarrow> apfst (map_sum id Health) (cluster_health c req s)
      | IlmGetLifecycle \<Rightarrow> apfst (map_sum id Body) (ilm_getLifecycle c req s)
      | IlmPutLifecycle \<Rightarrow> apfst (map_sum id Body) (ilm_putLifecycle c req s)
      | IndicesExistsIndexTemplate \<Rightarrow>
          apfst (map_sum id Bool) (indices_existsIndexTemplate c req s)
      | IndicesPutIndexTemplate \<Rightarrow> apfst (map_sum id Body) (indices_putIndexTemplate c req s)
      | IndicesExists \<Rightarrow> apfst (map_sum id Bool) (indices_exists c req s)
      | IndicesCreate \<Rightarrow> apfst (map_sum id Body) (indices_create c req s))"

text \<open>
  A call log is a transcript of the client from the state \<open>s\<close> when each of its calls,
  made in order on the state the one before left, is answered by the client with the
  outcome the log holds; the result is the state after the last call.
\<close>

fun transcript :: "'s Client \<Rightarrow> 's \<Rightarrow> call list \<Rightarrow> 's option" where
  "transcript c s [] = Some s"
| "transcript c s (x # xs) =
     (case perform c (api x) (request x) s of
        (out, s') \<Rightarrow> if out = outcome x then transcript c s' xs else None)"

text \<open>The method and request of the call made right after the call \<open>c\<close>, if there is one.\<close>

fun followed_by :: "call \<Rightarrow> call list \<Rightarrow> (api \<times> json) option" where
  "followed_by c [] = None"
| "followed_by c [x] = None"
| "followed_by c (x # y # xs) =
     (if x = c then Some (api y, request y) else followed_by c (y # xs))"

section \<open>\<^verbatim>\<open>winstonLogger\<close>\<close>

text \<open>
  The options objects handed to \<^verbatim>\<open>winston\<close> and \<^verbatim>\<open>winston-elasticsearch\<close>, field by
  field. The \<open>level\<close> argument is declared a string; a JavaScript caller can leave it
  \<^verbatim>\<open>undefined\<close>, which is \<open>None\<close> here. The \<^verbatim>\<open>level\<close> field of the logger options is
  \<open>logger_level\<close>, the name \<open>level\<close> being taken by the field of the transport options.
\<close>

datatype format = Timestamp | Json | Colorize | Simple | Combine "format list"

record 's ElasticsearchTransportOptions =
  level :: string
  client :: "'s Client"
  indexPrefix :: string
  indexSuffixPattern :: string
  source :: string
  bufferLimit :: nat
  flushInterval :: nat

datatype 's transport =
    Console format
  | ElasticsearchTransport "'s ElasticsearchTransportOptions"

record 's LoggerOptions =
  logger_level :: "string option"
  defaultMeta :: "(string \<times> string) list"
  format :: format
  transports :: "'s transport list"

datatype 's Logger = createLogger (options: "'s LoggerOptions")

text \<open>\<^verbatim>\<open>level || d\<close> on a string that may be undefined: both falsy values give \<open>d\<close>.\<close>

fun or_default :: "string option \<Rightarrow> string \<Rightarrow> string" where
  "or_default None d = d"
| "or_default (Some []) d = d"
| "or_default (Some s) d = s"

text \<open>A call of a logging method on the handle: \<^verbatim>\<open>logger.info(msg)\<close> is \<open>(''info'', msg)\<close>.\<close>

type_synonym log_call = "string \<times> string"

text \<open>
  The function, lines 5-56: the logger handle it returns, and the logging calls it makes
  on the handle before returning.
\<close>

definition winstonLogger ::
  "(string \<Rightarrow> 's Client) \<Rightarrow> Date \<Rightarrow> string \<Rightarrow> string \<Rightarrow> string option
     \<Rightarrow> 's Logger \<times> log_call list" where
  "winstonLogger new_Client now elasticsearchNode name lvl =
     (let esClient = new_Client elasticsearchNode;
          today = now;
          indexSuffix = indexSuffix today;
          esTransport = ElasticsearchTransport
            \<lparr>level = or_default lvl ''info'',
             client = esClient,
             indexPrefix = ''logs'',
             indexSuffixPattern = ''YYYY.MM.DD'',
             source = name,
             bufferLimit = 100,
             flushInterval = 500\<rparr>;
          logger = createLogger
            \<lparr>logger_level = lvl,
             defaultMeta = [(''service'', name)],
             format = Combine [Timestamp, Json],
             transports = [Console (Combine [Colorize, Simple]), esTransport]\<rparr>
      in (logger, [(''info'', ''Logger initialized for service: '' @ name)]))"

text \<open>The options of the remote transport of a logger: the Elasticsearch entries of its transports.\<close>

fun remote_sinks :: "'s transport list \<Rightarrow> 's ElasticsearchTransportOptions list" where
  "remote_sinks [] = []"
| "remote_sinks (Console f # ts) = remote_sinks ts"
| "remote_sinks (ElasticsearchTransport opts # ts) = opts # remote_sinks ts"

subsection \<open>The logging facade\<close>

record log_record =
  record_level :: string
  message :: string
  meta :: "(string \<times> string) list"

text \<open>
  Modelled from the spec: the \<^verbatim>\<open>log\<close> method of the log-emission facade (the third-party
  \<^verbatim>\<open>winston\<close> package, not under \<^verbatim>\<open>src/\<close>). The spec describes it as level-gated
  structured record emission in which every emitted record carries the default fields,
  and records below the minimum level are suppressed. \<open>priority\<close> is the facade's table
  of levels, a smaller number being more severe; a record is emitted when its level and
  the logger's minimum level are both in the table and the record is not below the
  minimum. Metadata given with a single call is not modelled.
\<close>

definition logger_log ::
  "(string \<Rightarrow> nat option) \<Rightarrow> 's Logger \<Rightarrow> log_call \<Rightarrow> log_record option" where
  "logger_log priority logger c =
     (case logger_level (options logger) of
        None \<Rightarrow> None
      | Some minLevel \<Rightarrow>
          (case (priority (fst c), priority minLevel) of
             (Some p, Some m) \<Rightarrow>
               if p \<le> m
               then Some \<lparr>record_level = fst c, message = snd c,
                          meta = defaultMeta (options logger)\<rparr>
               else None
           | _ \<Rightarrow> None))"

text \<open>
  Modelled from the spec: the minimum level the logger of the log-emission facade (the
  third-party \<^verbatim>\<open>winston\<close> package, not under \<^verbatim>\<open>src/\<close>) ends up with. The spec gives
  every logger a minimum level and says nothing of a default; the facade's
  \<^verbatim>\<open>createLogger\<close> takes \<^verbatim>\<open>level\<close> with the JavaScript default parameter \<^verbatim>\<open>info\<close>, which
  replaces an undefined level and keeps every string, the empty one included.
\<close>

definition overall_level :: "'s Logger \<Rightarrow> string" where
  "overall_level logger =
     (case logger_level (options logger) of None \<Rightarrow> ''info'' | Some l \<Rightarrow> l)"

section \<open>Concrete collaborators\<close>

text \<open>
  An in-memory stand-in for the client, used to run the functions on concrete inputs:
  a store of policies, templates and indices behind a client whose health probe answers
  green, whose lookups reject with status 404 on a missing policy, whose existence checks
  answer by membership, and whose creations store what they are given (creating an
  index that exists is rejected with status 400).
\<close>

record store =
  policies :: "(string \<times> json) list"
  templates :: "(string \<times> json) list"
  indices :: "string list"

definition string_field :: "string \<Rightarrow> json \<Rightarrow> string" where
  "string_field k req = (case get k req of Some (JString v) \<Rightarrow> v | _ \<Rightarrow> [])"

definition body_of :: "json \<Rightarrow> json" where
  "body_of req = (case get ''body'' req of Some b \<Rightarrow> b | None \<Rightarrow> JNull)"

definition acknowledged :: json where
  "acknowledged = JObject [(''acknowledged'', JBool True)]"

definition memory_Client :: "string \<Rightarrow> store Client" where
  "memory_Client node =
     \<lparr>cluster_health = (\<lambda>req s. (Inr \<lparr>status = ''green''\<rparr>, s)),
      ilm_getLifecycle = (\<lambda>req s.
        case map_of (policies s) (string_field ''name'' req) of
          None \<Rightarrow> (Inl (ResponseError 404), s)
        | Some p \<Rightarrow> (Inr (JObject [(string_field ''name'' req, p)]), s)),
      ilm_putLifecycle = (\<lambda>req s.
        (Inr acknowledged,
         s\<lparr>policies := (string_field ''name'' req, body_of req)
              # filter (\<lambda>kv. fst kv \<noteq> string_field ''name'' req) (policies s)\<rparr>)),
      indices_existsIndexTemplate = (\<lambda>req s.
        (Inr (map_of (templates s) (string_field ''name'' req) \<noteq> None), s)),
      indices_putIndexTemplate = (\<lambda>req s.
        (Inr acknowledged,
         s\<lparr>templates := (string_field ''name'' req, body_of req)
              # filter (\<lambda>kv. fst kv \<noteq> string_field ''name'' req) (templates s)\<rparr>)),
      indices_exists = (\<lambda>req s. (Inr (string_field ''index'' req \<in> set (indices s)), s)),
      indices_create = (\<lambda>req s.
        if string_field ''index'' req \<in> set (indices s)
        then (Inl (ResponseError 400), s)
        else (Inr acknowledged, s\<lparr>indices := string_field ''index'' req # indices s\<rparr>))\<rparr>"

definition empty_store :: store where
  "empty_store = \<lparr>policies = [], templates = [], indices = []\<rparr>"

text \<open>The store a first run on 2024-03-05 leaves behind.\<close>

definition ready_store :: store where
  "ready_store =
     \<lparr>policies = [(''logs_policy'', body_of logs_policy_request)],
      templates = [(''logs_template'', body_of logs_template_request)],
      indices = [''logs-2024.03.05'']\<rparr>"

definition march_5th :: Date where
  "march_5th = \<lparr>getFullYear = 2024, getMonth = 2, getDate = 5\<rparr>"

text \<open>Clients with a fault: a method of the in-memory client replaced by one that rejects.\<close>

definition health_down_Client :: "string \<Rightarrow> store Client" where
  "health_down_Client node =
     (memory_Client node)\<lparr>cluster_health := (\<lambda>req s. (Inl ConnectionError, s))\<rparr>"

definition policy_timeout_Client :: "string \<Rightarrow> store Client" where
  "policy_timeout_Client node =
     (memory_Client node)
       \<lparr>ilm_getLifecycle := (\<lambda>req s. (Inl TimeoutError, s)),
        ilm_putLifecycle := (\<lambda>req s.
          if map_of (policies s) (string_field ''name'' req) \<noteq> None
          then (Inl (ResponseError 409), s)
          else (Inr acknowledged,
                s\<lparr>policies := (string_field ''name'' req, body_of req) # policies s\<rparr>))\<rparr>"

definition exists_timeout_Client :: "string \<Rightarrow> store Client" where
  "exists_timeout_Client node =
     (memory_Client node)\<lparr>indices_exists := (\<lambda>req s. (Inl TimeoutError, s))\<rparr>"

definition template_timeout_Client :: "string \<Rightarrow> store Client" where
  "template_timeout_Client node =
     (memory_Client node)\<lparr>indices_existsIndexTemplate := (\<lambda>req s. (Inl TimeoutError, s))\<rparr>"

text \<open>The level table of the facade's default (npm) levels.\<close>

definition npm_levels :: "string \<Rightarrow> nat option" where
  "npm_levels = map_of
     [(''error'', 0), (''warn'', 1), (''info'', 2), (''http'', 3),
      (''verbose'', 4), (''debug'', 5), (''silly'', 6)]"

section \<open>Symbolic execution of a run\<close>

text \<open>
  The steps of a run in continuation form. Rewriting with these equations turns the body
  of \<open>checkElasticLoggingSetup\<close> into a decision tree over the answers of the client.
\<close>

lemma io_catch_run_k: "io_catch m h r = run_k m r (\<lambda>v r'. (Inr v, r')) h"
  by (simp add: io_catch_def run_k_def)

lemma io_bind_run_k: "io_bind m f r = run_k m r f (\<lambda>e r'. (Inl e, r'))"
  by (simp add: io_bind_def run_k_def)

lemma io_return_apply: "io_return v r = (Inr v, r)"
  by (simp add: io_return_def)

lemma console_error_apply: "console_error msg e r = (Inr (), console_update (\<lambda>ls. ls @ [Error msg e]) r)"
  by (simp add: console_error_def)

lemma run_k_bind: "run_k (io_bind m f) r S F = run_k m r (\<lambda>v r'. run_k (f v) r' S F) F"
  by (simp add: io_bind_def run_k_def split: prod.split sum.split)

lemma run_k_catch: "run_k (io_catch m h) r S F = run_k m r S (\<lambda>e r'. run_k (h e) r' S F)"
  by (simp add: io_catch_def run_k_def split: prod.split sum.split)

lemma run_k_await:
  "run_k (await a wrap m req) r S F =
     (case m req (backend r) of
        (Inl e, s') \<Rightarrow>
          F e (calls_update (\<lambda>cs. cs @ [\<lparr>api = a, request = req, outcome = Inl e\<rparr>]) (r\<lparr>backend := s'\<rparr>))
      | (Inr v, s') \<Rightarrow>
          S v (calls_update (\<lambda>cs. cs @ [\<lparr>api = a, request = req, outcome = Inr (wrap v)\<rparr>]) (r\<lparr>backend := s'\<rparr>)))"
  by (simp add: await_def run_k_def split: prod.split sum.split)

lemma run_k_log: "run_k (console_log msg) r S F = S () (console_update (\<lambda>ls. ls @ [Log msg]) r)"
  by (simp add: console_log_def run_k_def)

lemma run_k_error: "run_k (console_error msg e) r S F = S () (console_update (\<lambda>ls. ls @ [Error msg e]) r)"
  by (simp add: console_error_def run_k_def)

lemma run_k_return: "run_k (io_return v) r S F = S v r"
  by (simp add: io_return_def run_k_def)

lemma run_k_if: "run_k (if b then m else m') r S F = (if b then run_k m r S F else run_k m' r S F)"
  by simp

lemmas run_k_simps = io_catch_run_k io_bind_run_k io_return_apply console_error_apply run_k_bind run_k_catch run_k_await run_k_log run_k_error
  run_k_return run_k_if

section \<open>Runs on the concrete collaborators\<close>

lemma indexName_march_5th: "indexName march_5th = ''logs-2024.03.05''"
  by code_simp

lemma indexSuffix_march_5th: "indexSuffix march_5th = ''2024.03.05''"
  by code_simp

lemmas client_defs = memory_Client_def health_down_Client_def policy_timeout_Client_def
  exists_timeout_Client_def template_timeout_Client_def string_field_def body_of_def

text \<open>The first run on an empty store.\<close>

lemma run_on_empty_store:
  "checkElasticLoggingSetup memory_Client march_5th ''http://localhost:9200'' empty_store =
   (Inr True,
    \<lparr>backend = ready_store,
     calls =
       [\<lparr>api = ClusterHealth, request = JObject [],
         outcome = Inr (Health \<lparr>status = ''green''\<rparr>)\<rparr>,
        \<lparr>api = IlmGetLifecycle, request = JObject [(''name'', JString ''logs_policy'')],
         outcome = Inl (ResponseError 404)\<rparr>,
        \<lparr>api = IlmPutLifecycle, request = logs_policy_request,
         outcome = Inr (Body acknowledged)\<rparr>,
        \<lparr>api = IndicesExistsIndexTemplate,
         request = JObject [(''name'', JString ''logs_template'')],
         outcome = Inr (Bool False)\<rparr>,
        \<lparr>api = IndicesPutIndexTemplate, request = logs_template_request,
         outcome = Inr (Body acknowledged)\<rparr>,
        \<lparr>api = IndicesExists, request = JObject [(''index'', JString ''logs-2024.03.05'')],
         outcome = Inr (Bool False)\<rparr>,
        \<lparr>api = IndicesCreate, request = JObject [(''index'', JString ''logs-2024.03.05'')],
         outcome = Inr (Body acknowledged)\<rparr>],
     console =
       [Log ''Elasticsearch health for logging: green'',
        Log ''Creating ILM policy for logs...'',
        Log ''ILM policy created successfully'',
        Log ''Creating index template with ILM settings...'',
        Log ''Index template created successfully'',
        Log ''Created Elasticsearch index: logs-2024.03.05'']\<rparr>)"
  unfolding checkElasticLoggingSetup_def Let_def
  by (simp add: run_k_simps client_defs indexName_march_5th empty_store_def ready_store_def
      logs_policy_request_def logs_template_request_def)

text \<open>A run on the store the first run left.\<close>

lemma run_on_ready_store:
  "checkElasticLoggingSetup memory_Client march_5th ''http://localhost:9200'' ready_store =
   (Inr True,
    \<lparr>backend = ready_store,
     calls =
       [\<lparr>api = ClusterHealth, request = JObject [],
         outcome = Inr (Health \<lparr>status = ''green''\<rparr>)\<rparr>,
        \<lparr>api = IlmGetLifecycle, request = JObject [(''name'', JString ''logs_policy'')],
         outcome = Inr (Body (JObject [(''logs_policy'', body_of logs_policy_request)]))\<rparr>,
        \<lparr>api = IndicesExistsIndexTemplate,
         request = JObject [(''name'', JString ''logs_template'')],
         outcome = Inr (Bool True)\<rparr>,
        \<lparr>api = IndicesExists, request = JObject [(''index'', JString ''logs-2024.03.05'')],
         outcome = Inr (Bool True)\<rparr>],
     console =
       [Log ''Elasticsearch health for logging: green'',
        Log ''Using existing ILM policy for logs'']\<rparr>)"
  unfolding checkElasticLoggingSetup_def Let_def
  by (simp add: run_k_simps client_defs indexName_march_5th ready_store_def)

text \<open>A run while the cluster cannot be reached.\<close>

lemma run_with_health_down:
  "checkElasticLoggingSetup health_down_Client march_5th ''http://localhost:9200'' empty_store =
   (Inr False,
    \<lparr>backend = empty_store,
     calls = [\<lparr>api = ClusterHealth, request = JObject [], outcome = Inl ConnectionError\<rparr>],
     console = [Error ''Failed to setup Elasticsearch logging:'' ConnectionError]\<rparr>)"
  unfolding checkElasticLoggingSetup_def Let_def
  by (simp add: run_k_simps client_defs)

text \<open>A run on the ready store while the policy lookup times out.\<close>

lemma run_with_policy_timeout:
  "checkElasticLoggingSetup policy_timeout_Client march_5th ''http://localhost:9200'' ready_store =
   (Inr False,
    \<lparr>backend = ready_store,
     calls =
       [\<lparr>api = ClusterHealth, request = JObject [],
         outcome = Inr (Health \<lparr>status = ''green''\<rparr>)\<rparr>,
        \<lparr>api = IlmGetLifecycle, request = JObject [(''name'', JString ''logs_policy'')],
         outcome = Inl TimeoutError\<rparr>,
        \<lparr>api = IlmPutLifecycle, request = logs_policy_request,
         outcome = Inl (ResponseError 409)\<rparr>],
     console =
       [Log ''Elasticsearch health for logging: green'',
        Log ''Creating ILM policy for logs...'',
        Error ''Failed to setup Elasticsearch logging:'' (ResponseError 409)]\<rparr>)"
  unfolding checkElasticLoggingSetup_def Let_def
  by (simp add: run_k_simps client_defs ready_store_def logs_policy_request_def)

text \<open>A run on the ready store while the index existence check times out.\<close>

lemma run_with_exists_timeout:
  "checkElasticLoggingSetup exists_timeout_Client march_5th ''http://localhost:9200'' ready_store =
   (Inr False,
    \<lparr>backend = ready_store,
     calls =
       [\<lparr>api = ClusterHealth, request = JObject [],
         outcome = Inr (Health \<lparr>status = ''green''\<rparr>)\<rparr>,
        \<lparr>api = IlmGetLifecycle, request = JObject [(''name'', JString ''logs_policy'')],
         outcome = Inr (Body (JObject [(''logs_policy'', body_of logs_policy_request)]))\<rparr>,
        \<lparr>api = IndicesExistsIndexTemplate,
         request = JObject [(''name'', JString ''logs_template'')],
         outcome = Inr (Bool True)\<rparr>,
        \<lparr>api = IndicesExists, request = JObject [(''index'', JString ''logs-2024.03.05'')],
         outcome = Inl TimeoutError\<rparr>],
     console =
       [Log ''Elasticsearch health for logging: green'',
        Log ''Using existing ILM policy for logs'',
        Error ''Failed to setup Elasticsearch logging:'' TimeoutError]\<rparr>)"
  unfolding checkElasticLoggingSetup_def Let_def
  by (simp add: run_k_simps client_defs indexName_march_5th ready_store_def)

text \<open>A run on the ready store while the template existence check times out.\<close>

lemma run_with_template_timeout:
  "checkElasticLoggingSetup template_timeout_Client march_5th ''http://localhost:9200''
     ready_store =
   (Inr True,
    \<lparr>backend = ready_store,
     calls =
       [\<lparr>api = ClusterHealth, request = JObject [],
         outcome = Inr (Health \<lparr>status = ''green''\<rparr>)\<rparr>,
        \<lparr>api = IlmGetLifecycle, request = JObject [(''name'', JString ''logs_policy'')],
         outcome = Inr (Body (JObject [(''logs_policy'', body_of logs_policy_request)]))\<rparr>,
        \<lparr>api = IndicesExistsIndexTemplate,
         request = JObject [(''name'', JString ''logs_template'')],
         outcome = Inl TimeoutError\<rparr>,
        \<lparr>api = IndicesPutIndexTemplate, request = logs_template_request,
         outcome = Inr (Body acknowledged)\<rparr>,
        \<lparr>api = IndicesExists, request = JObject [(''index'', JString ''logs-2024.03.05'')],
         outcome = Inr (Bool True)\<rparr>],
     console =
       [Log ''Elasticsearch health for logging: green'',
        Log ''Using existing ILM policy for logs'',
        Log ''Creating index template with ILM settings...'',
        Log ''Index template created successfully'']\<rparr>)"
  unfolding checkElasticLoggingSetup_def Let_def
  by (simp add: run_k_simps client_defs indexName_march_5th ready_store_def
      logs_template_request_def)

section \<open>Properties of \<^verbatim>\<open>checkElasticLoggingSetup\<close>\<close>

text \<open>
  Claim C5 (health-gate failure). When the cluster-health query rejects, the function
  resolves with \<^verbatim>\<open>false\<close>; the health query is the only client call of the run, so no
  policy, template or index creation is attempted, and the console holds the one
  diagnostic line carrying the error.
\<close>

theorem health_probe_failure:
  assumes "fst (cluster_health (new_Client node) (JObject []) s) = Inl e"
  shows "case checkElasticLoggingSetup new_Client now node s of
           (res, run) \<Rightarrow>
             res = Inr False \<and>
             calls run = [\<lparr>api = ClusterHealth, request = JObject [], outcome = Inl e\<rparr>] \<and>
             (\<forall>c\<in>set (calls run). \<not> is_create (api c)) \<and>
             console run = [Error ''Failed to setup Elasticsearch logging:'' e]"
proof -
  obtain s1 where h: "cluster_health (new_Client node) (JObject []) s = (Inl e, s1)"
    using assms by (cases "cluster_health (new_Client node) (JObject []) s") auto
  show ?thesis
    unfolding checkElasticLoggingSetup_def Let_def
    by (simp add: run_k_simps h)
qed

theorem health_probe_failure_witness:
  "fst (cluster_health (health_down_Client ''http://localhost:9200'') (JObject []) empty_store)
     = Inl ConnectionError \<and>
   fst (checkElasticLoggingSetup health_down_Client march_5th ''http://localhost:9200''
          empty_store) = Inr False \<and>
   map api (calls (snd (checkElasticLoggingSetup health_down_Client march_5th
          ''http://localhost:9200'' empty_store))) = [ClusterHealth]"
proof -
  have h: "fst (cluster_health (health_down_Client ''http://localhost:9200'') (JObject [])
             empty_store) = Inl ConnectionError"
    by (simp add: client_defs)
  from health_probe_failure [where new_Client = health_down_Client
      and node = "''http://localhost:9200''" and s = empty_store and now = march_5th, OF h] h
  show ?thesis
    by (simp add: case_prod_beta)
qed

text \<open>
  Claim C1, as stated: every failure raised by a backend call makes the function return
  \<^verbatim>\<open>false\<close> with a logged diagnostic. On an empty store the policy lookup is rejected with
  status 404, the function goes on and resolves with \<^verbatim>\<open>true\<close>, and no diagnostic is
  written to the console.
\<close>

theorem failure_without_false_counterexample:
  "fst (checkElasticLoggingSetup memory_Client march_5th ''http://localhost:9200'' empty_store)
     = Inr True \<and>
   calls (snd (checkElasticLoggingSetup memory_Client march_5th ''http://localhost:9200''
     empty_store)) ! 1
     = \<lparr>api = IlmGetLifecycle, request = JObject [(''name'', JString ''logs_policy'')],
        outcome = Inl (ResponseError 404)\<rparr> \<and>
   filter (\<lambda>l. case l of Error m e \<Rightarrow> True | Log m \<Rightarrow> False)
     (console (snd (checkElasticLoggingSetup memory_Client march_5th ''http://localhost:9200''
        empty_store))) = []"
  by (simp add: run_on_empty_store)

text \<open>
  Claim C1, amended. The promise never rejects and resolves with a boolean. The first
  call is the health probe, and the call log is a transcript of the client: every call
  in it was answered by the client as logged, and the run leaves the backend the last
  call left. A rejection of the policy lookup is absorbed and taken for absence: the
  next call is \<^verbatim>\<open>ilm.putLifecycle\<close> with the policy request. A rejection of the template
  existence check is absorbed and taken for absence: the next call is
  \<^verbatim>\<open>indices.putIndexTemplate\<close> with the template request. A rejection of any other call
  ends the run: the call is the last one, the function resolves with \<^verbatim>\<open>false\<close>, and the
  last console line is the diagnostic carrying the error.
\<close>

theorem never_throws:
  "case checkElasticLoggingSetup new_Client now node s of
     (res, run) \<Rightarrow>
       (res = Inr True \<or> res = Inr False) \<and>
       map api (take 1 (calls run)) = [ClusterHealth] \<and>
       transcript (new_Client node) s (calls run) = Some (backend run) \<and>
       (\<forall>c\<in>set (calls run). \<forall>e. outcome c = Inl e \<longrightarrow>
          (if api c = IlmGetLifecycle
           then followed_by c (calls run) = Some (IlmPutLifecycle, logs_policy_request)
           else if api c = IndicesExistsIndexTemplate
           then followed_by c (calls run)
                  = Some (IndicesPutIndexTemplate, logs_template_request)
           else res = Inr False \<and> c = last (calls run) \<and>
                last (console run) = Error ''Failed to setup Elasticsearch logging:'' e))"
proof -
  define m1 where "m1 = ''Elasticsearch health for logging: ''"
  define m2 where "m2 = ''Using existing ILM policy for logs''"
  define m3 where "m3 = ''Creating ILM policy for logs...''"
  define m4 where "m4 = ''ILM policy created successfully''"
  define m5 where "m5 = ''Creating index template with ILM settings...''"
  define m6 where "m6 = ''Index template created successfully''"
  define m7 where "m7 = ''Created Elasticsearch index: ''"
  define m8 where "m8 = ''Failed to setup Elasticsearch logging:''"
  define q1 where "q1 = JObject [(''name'', JString ''logs_policy'')]"
  define q2 where "q2 = JObject [(''name'', JString ''logs_template'')]"
  define q3 where "q3 = JObject [(''index'', JString (indexName now))]"
  note folds = m1_def m2_def m3_def m4_def m5_def m6_def m7_def m8_def q1_def q2_def q3_def
  show ?thesis
    unfolding checkElasticLoggingSetup_def Let_def
    apply (fold folds)
    apply (simp add: run_k_simps perform_def split: prod.split sum.split)
    done
qed

theorem never_throws_witness:
  "fst (checkElasticLoggingSetup policy_timeout_Client march_5th ''http://localhost:9200''
     ready_store) = Inr False \<and>
   followed_by
     \<lparr>api = IlmGetLifecycle, request = JObject [(''name'', JString ''logs_policy'')],
       outcome = Inl TimeoutError\<rparr>
     (calls (snd (checkElasticLoggingSetup policy_timeout_Client march_5th
        ''http://localhost:9200'' ready_store)))
     = Some (IlmPutLifecycle, logs_policy_request) \<and>
   last (console (snd (checkElasticLoggingSetup policy_timeout_Client march_5th
     ''http://localhost:9200'' ready_store)))
     = Error ''Failed to setup Elasticsearch logging:'' (ResponseError 409) \<and>
   fst (checkElasticLoggingSetup template_timeout_Client march_5th ''http://localhost:9200''
     ready_store) = Inr True \<and>
   followed_by
     \<lparr>api = IndicesExistsIndexTemplate,
       request = JObject [(''name'', JString ''logs_template'')],
       outcome = Inl TimeoutError\<rparr>
     (calls (snd (checkElasticLoggingSetup template_timeout_Client march_5th
        ''http://localhost:9200'' ready_store)))
     = Some (IndicesPutIndexTemplate, logs_template_request) \<and>
   transcript (template_timeout_Client ''http://localhost:9200'') ready_store
     (calls (snd (checkElasticLoggingSetup template_timeout_Client march_5th
        ''http://localhost:9200'' ready_store)))
     = Some ready_store"
proof -
  have policy:
    "fst (checkElasticLoggingSetup policy_timeout_Client march_5th ''http://localhost:9200''
       ready_store) = Inr False \<and>
     followed_by
       \<lparr>api = IlmGetLifecycle, request = JObject [(''name'', JString ''logs_policy'')],
         outcome = Inl TimeoutError\<rparr>
       (calls (snd (checkElasticLoggingSetup policy_timeout_Client march_5th
          ''http://localhost:9200'' ready_store)))
       = Some (IlmPutLifecycle, logs_policy_request) \<and>
     last (console (snd (checkElasticLoggingSetup policy_timeout_Client march_5th
       ''http://localhost:9200'' ready_store)))
       = Error ''Failed to setup Elasticsearch logging:'' (ResponseError 409)"
    using never_throws [where new_Client = policy_timeout_Client and now = march_5th
        and node = "''http://localhost:9200''" and s = ready_store]
    by (simp add: run_with_policy_timeout)
  have template:
    "fst (checkElasticLoggingSetup template_timeout_Client march_5th ''http://localhost:9200''
       ready_store) = Inr True \<and>
     followed_by
       \<lparr>api = IndicesExistsIndexTemplate,
         request = JObject [(''name'', JString ''logs_template'')],
         outcome = Inl TimeoutError\<rparr>
       (calls (snd (checkElasticLoggingSetup template_timeout_Client march_5th
          ''http://localhost:9200'' ready_store)))
       = Some (IndicesPutIndexTemplate, logs_template_request) \<and>
     transcript (template_timeout_Client ''http://localhost:9200'') ready_store
       (calls (snd (checkElasticLoggingSetup template_timeout_Client march_5th
          ''http://localhost:9200'' ready_store)))
       = Some ready_store"
    using never_throws [where new_Client = template_timeout_Client and now = march_5th
        and node = "''http://localhost:9200''" and s = ready_store]
    by (simp add: run_with_template_timeout)
  from policy template show ?thesis
    by simp
qed

text \<open>
  Claim C4 (ambiguous error, asserted as it is). Let the health probe of the client
  resolve and its policy lookup, made next, be rejected, whatever the error and whatever
  the backend holds. Then the first three calls of the run are the health probe, the
  lookup and \<^verbatim>\<open>ilm.putLifecycle\<close> with the policy request, logged with the answers the
  client gave. When the client rejects that creation, it is the last call, the function
  resolves with \<^verbatim>\<open>false\<close>, the backend is as the creation left it and the console ends
  with the diagnostic carrying the error of the creation. When the client accepts the
  creation, the run goes on to the template existence check.
\<close>

theorem lookup_error_leads_to_create:
  assumes "cluster_health (new_Client node) (JObject []) s = (Inr h, s1)"
    and "ilm_getLifecycle (new_Client node) (JObject [(''name'', JString ''logs_policy'')]) s1
           = (Inl e, s2)"
  shows "case checkElasticLoggingSetup new_Client now node s of
     (res, run) \<Rightarrow>
       take 3 (calls run) =
         [\<lparr>api = ClusterHealth, request = JObject [], outcome = Inr (Health h)\<rparr>,
          \<lparr>api = IlmGetLifecycle, request = JObject [(''name'', JString ''logs_policy'')],
            outcome = Inl e\<rparr>,
          \<lparr>api = IlmPutLifecycle, request = logs_policy_request,
            outcome = map_sum id Body
              (fst (ilm_putLifecycle (new_Client node) logs_policy_request s2))\<rparr>] \<and>
       (\<forall>e' s3. ilm_putLifecycle (new_Client node) logs_policy_request s2 = (Inl e', s3) \<longrightarrow>
          res = Inr False \<and> length (calls run) = 3 \<and> backend run = s3 \<and>
          console run =
            [Log (''Elasticsearch health for logging: '' @ status h),
             Log ''Creating ILM policy for logs...'',
             Error ''Failed to setup Elasticsearch logging:'' e']) \<and>
       (\<forall>v s3. ilm_putLifecycle (new_Client node) logs_policy_request s2 = (Inr v, s3) \<longrightarrow>
          4 \<le> length (calls run) \<and> api (calls run ! 3) = IndicesExistsIndexTemplate \<and>
          take 3 (console run) =
            [Log (''Elasticsearch health for logging: '' @ status h),
             Log ''Creating ILM policy for logs...'',
             Log ''ILM policy created successfully''])"
proof -
  define m1 where "m1 = ''Elasticsearch health for logging: ''"
  define m2 where "m2 = ''Using existing ILM policy for logs''"
  define m3 where "m3 = ''Creating ILM policy for logs...''"
  define m4 where "m4 = ''ILM policy created successfully''"
  define m5 where "m5 = ''Creating index template with ILM settings...''"
  define m6 where "m6 = ''Index template created successfully''"
  define m7 where "m7 = ''Created Elasticsearch index: ''"
  define m8 where "m8 = ''Failed to setup Elasticsearch logging:''"
  define q1 where "q1 = JObject [(''name'', JString ''logs_policy'')]"
  define q2 where "q2 = JObject [(''name'', JString ''logs_template'')]"
  define q3 where "q3 = JObject [(''index'', JString (indexName now))]"
  note folds = m1_def m2_def m3_def m4_def m5_def m6_def m7_def m8_def q1_def q2_def q3_def
  show ?thesis
    unfolding checkElasticLoggingSetup_def Let_def
    using assms
    apply (fold folds)
    apply (simp add: run_k_simps split: prod.split sum.split)
    done
qed

theorem lookup_error_leads_to_create_witness:
  "map_of (policies ready_store) ''logs_policy'' = Some (body_of logs_policy_request) \<and>
   cluster_health (policy_timeout_Client ''http://localhost:9200'') (JObject []) ready_store
     = (Inr \<lparr>status = ''green''\<rparr>, ready_store) \<and>
   ilm_getLifecycle (policy_timeout_Client ''http://localhost:9200'')
     (JObject [(''name'', JString ''logs_policy'')]) ready_store
     = (Inl TimeoutError, ready_store) \<and>
   ilm_putLifecycle (policy_timeout_Client ''http://localhost:9200'') logs_policy_request
     ready_store = (Inl (ResponseError 409), ready_store) \<and>
   fst (checkElasticLoggingSetup policy_timeout_Client march_5th ''http://localhost:9200''
     ready_store) = Inr False \<and>
   map api (calls (snd (checkElasticLoggingSetup policy_timeout_Client march_5th
     ''http://localhost:9200'' ready_store)))
     = [ClusterHealth, IlmGetLifecycle, IlmPutLifecycle] \<and>
   backend (snd (checkElasticLoggingSetup policy_timeout_Client march_5th
     ''http://localhost:9200'' ready_store)) = ready_store"
proof -
  have configured:
    "map_of (policies ready_store) ''logs_policy'' = Some (body_of logs_policy_request)"
    by (simp add: ready_store_def)
  have h: "cluster_health (policy_timeout_Client ''http://localhost:9200'') (JObject [])
      ready_store = (Inr \<lparr>status = ''green''\<rparr>, ready_store)"
    by (simp add: client_defs)
  have g: "ilm_getLifecycle (policy_timeout_Client ''http://localhost:9200'')
      (JObject [(''name'', JString ''logs_policy'')]) ready_store
      = (Inl TimeoutError, ready_store)"
    by (simp add: client_defs)
  have p: "ilm_putLifecycle (policy_timeout_Client ''http://localhost:9200'')
      logs_policy_request ready_store = (Inl (ResponseError 409), ready_store)"
    by (simp add: client_defs ready_store_def logs_policy_request_def)
  have "fst (checkElasticLoggingSetup policy_timeout_Client march_5th ''http://localhost:9200''
       ready_store) = Inr False \<and>
     map api (calls (snd (checkElasticLoggingSetup policy_timeout_Client march_5th
       ''http://localhost:9200'' ready_store)))
       = [ClusterHealth, IlmGetLifecycle, IlmPutLifecycle] \<and>
     backend (snd (checkElasticLoggingSetup policy_timeout_Client march_5th
       ''http://localhost:9200'' ready_store)) = ready_store"
    using lookup_error_leads_to_create [where new_Client = policy_timeout_Client
        and node = "''http://localhost:9200''" and now = march_5th and s = ready_store
        and h = "\<lparr>status = ''green''\<rparr>" and ?s1.0 = ready_store and e = TimeoutError
        and ?s2.0 = ready_store, OF h g] p
    by (simp add: run_with_policy_timeout)
  with configured h g p show ?thesis
    by simp
qed

text \<open>
  Claim C10 (the index check does not take an error for absence). In every run in which
  \<^verbatim>\<open>indices.exists\<close> is rejected, that call is the last one, no \<^verbatim>\<open>indices.create\<close> call
  is made in the run, the function resolves with \<^verbatim>\<open>false\<close>, and the last console line
  is the diagnostic carrying the error.
\<close>

theorem index_check_error_propagates:
  "case checkElasticLoggingSetup new_Client now node s of
     (res, run) \<Rightarrow>
       (\<forall>c\<in>set (calls run). \<forall>e. api c = IndicesExists \<longrightarrow> outcome c = Inl e \<longrightarrow>
          res = Inr False \<and> c = last (calls run) \<and>
          (\<forall>d\<in>set (calls run). api d \<noteq> IndicesCreate) \<and>
          last (console run) = Error ''Failed to setup Elasticsearch logging:'' e)"
proof -
  define m1 where "m1 = ''Elasticsearch health for logging: ''"
  define m2 where "m2 = ''Using existing ILM policy for logs''"
  define m3 where "m3 = ''Creating ILM policy for logs...''"
  define m4 where "m4 = ''ILM policy created successfully''"
  define m5 where "m5 = ''Creating index template with ILM settings...''"
  define m6 where "m6 = ''Index template created successfully''"
  define m7 where "m7 = ''Created Elasticsearch index: ''"
  define m8 where "m8 = ''Failed to setup Elasticsearch logging:''"
  define q1 where "q1 = JObject [(''name'', JString ''logs_policy'')]"
  define q2 where "q2 = JObject [(''name'', JString ''logs_template'')]"
  define q3 where "q3 = JObject [(''index'', JString (indexName now))]"
  note folds = m1_def m2_def m3_def m4_def m5_def m6_def m7_def m8_def q1_def q2_def q3_def
  show ?thesis
    unfolding checkElasticLoggingSetup_def Let_def
    apply (fold folds)
    apply (simp add: run_k_simps split: prod.split sum.split)
    done
qed

theorem index_check_error_propagates_witness:
  "api (last (calls (snd (checkElasticLoggingSetup exists_timeout_Client march_5th
     ''http://localhost:9200'' empty_store)))) = IndicesExists \<and>
   outcome (last (calls (snd (checkElasticLoggingSetup exists_timeout_Client march_5th
     ''http://localhost:9200'' empty_store)))) = Inl TimeoutError \<and>
   fst (checkElasticLoggingSetup exists_timeout_Client march_5th ''http://localhost:9200''
     empty_store) = Inr False \<and>
   indices (backend (snd (checkElasticLoggingSetup exists_timeout_Client march_5th
     ''http://localhost:9200'' empty_store))) = []"
proof -
  have run: "checkElasticLoggingSetup exists_timeout_Client march_5th ''http://localhost:9200''
      empty_store =
    (Inr False,
     \<lparr>backend = ready_store\<lparr>indices := []\<rparr>,
      calls =
        [\<lparr>api = ClusterHealth, request = JObject [],
          outcome = Inr (Health \<lparr>status = ''green''\<rparr>)\<rparr>,
         \<lparr>api = IlmGetLifecycle, request = JObject [(''name'', JString ''logs_policy'')],
          outcome = Inl (ResponseError 404)\<rparr>,
         \<lparr>api = IlmPutLifecycle, request = logs_policy_request,
          outcome = Inr (Body acknowledged)\<rparr>,
         \<lparr>api = IndicesExistsIndexTemplate,
          request = JObject [(''name'', JString ''logs_template'')],
          outcome = Inr (Bool False)\<rparr>,
         \<lparr>api = IndicesPutIndexTemplate, request = logs_template_request,
          outcome = Inr (Body acknowledged)\<rparr>,
         \<lparr>api = IndicesExists, request = JObject [(''index'', JString ''logs-2024.03.05'')],
          outcome = Inl TimeoutError\<rparr>],
      console =
        [Log ''Elasticsearch health for logging: green'',
         Log ''Creating ILM policy for logs...'',
         Log ''ILM policy created successfully'',
         Log ''Creating index template with ILM settings...'',
         Log ''Index template created successfully'',
         Error ''Failed to setup Elasticsearch logging:'' TimeoutError]\<rparr>)"
    unfolding checkElasticLoggingSetup_def Let_def
    by (simp add: run_k_simps client_defs indexName_march_5th empty_store_def ready_store_def
        logs_policy_request_def logs_template_request_def)
  from index_check_error_propagates
    [of exists_timeout_Client march_5th "''http://localhost:9200''" empty_store]
  show ?thesis
    by (simp add: run)
qed

subsection \<open>The first run\<close>

text \<open>What the two creation requests hold.\<close>

lemma logs_policy_request_content:
  "get_path [''name''] logs_policy_request = Some (JString ''logs_policy'') \<and>
   map_option keys (get_path [''body'', ''policy'', ''phases''] logs_policy_request)
     = Some [''hot'', ''warm'', ''cold'', ''delete''] \<and>
   get_path [''body'', ''policy'', ''phases'', ''hot''] logs_policy_request
     = Some (JObject [(''min_age'', JString ''0ms''),
          (''actions'', JObject [(''rollover'',
             JObject [(''max_age'', JString ''7d''), (''max_size'', JString ''5gb'')])])]) \<and>
   get_path [''body'', ''policy'', ''phases'', ''warm''] logs_policy_request
     = Some (JObject [(''min_age'', JString ''7d''),
          (''actions'', JObject [(''shrink'', JObject [(''number_of_shards'', JNumber 1)]),
             (''forcemerge'', JObject [(''max_num_segments'', JNumber 1)])])]) \<and>
   get_path [''body'', ''policy'', ''phases'', ''cold''] logs_policy_request
     = Some (JObject [(''min_age'', JString ''30d''), (''actions'', JObject [])]) \<and>
   get_path [''body'', ''policy'', ''phases'', ''delete''] logs_policy_request
     = Some (JObject [(''min_age'', JString ''90d''),
          (''actions'', JObject [(''delete'', JObject [])])])"
  by (simp add: logs_policy_request_def)

lemma logs_template_request_content:
  "get_path [''name''] logs_template_request = Some (JString ''logs_template'') \<and>
   get_path [''body'', ''index_patterns''] logs_template_request
     = Some (JArray [JString ''logs-*'']) \<and>
   get_path [''body'', ''template'', ''settings''] logs_template_request
     = Some (JObject [(''number_of_shards'', JNumber 1), (''number_of_replicas'', JNumber 1),
          (''lifecycle.name'', JString ''logs_policy'')]) \<and>
   get_path [''body'', ''template'', ''mappings'', ''properties''] logs_template_request
     = Some (JObject [(''@timestamp'', JObject [(''type'', JString ''date'')]),
          (''message'', JObject [(''type'', JString ''text'')]),
          (''level'', JObject [(''type'', JString ''keyword'')]),
          (''service'', JObject [(''type'', JString ''keyword'')])])"
  by (simp add: logs_template_request_def)

text \<open>The calls of a run in which every call is answered as by an empty backend.\<close>

lemma first_run_calls:
  "case checkElasticLoggingSetup new_Client now node s of
     (res, run) \<Rightarrow>
       (\<forall>c\<in>set (calls run). answers_as_empty c) \<longrightarrow>
         res = Inr True \<and>
         map (\<lambda>c. (api c, request c)) (calls run) =
           [(ClusterHealth, JObject []),
            (IlmGetLifecycle, JObject [(''name'', JString ''logs_policy'')]),
            (IlmPutLifecycle, logs_policy_request),
            (IndicesExistsIndexTemplate, JObject [(''name'', JString ''logs_template'')]),
            (IndicesPutIndexTemplate, logs_template_request),
            (IndicesExists, JObject [(''index'', JString (indexName now))]),
            (IndicesCreate, JObject [(''index'', JString (indexName now))])]"
proof -
  define m1 where "m1 = ''Elasticsearch health for logging: ''"
  define m2 where "m2 = ''Using existing ILM policy for logs''"
  define m3 where "m3 = ''Creating ILM policy for logs...''"
  define m4 where "m4 = ''ILM policy created successfully''"
  define m5 where "m5 = ''Creating index template with ILM settings...''"
  define m6 where "m6 = ''Index template created successfully''"
  define m7 where "m7 = ''Created Elasticsearch index: ''"
  define m8 where "m8 = ''Failed to setup Elasticsearch logging:''"
  define q1 where "q1 = JObject [(''name'', JString ''logs_policy'')]"
  define q2 where "q2 = JObject [(''name'', JString ''logs_template'')]"
  define q3 where "q3 = JObject [(''index'', JString (indexName now))]"
  note folds = m1_def m2_def m3_def m4_def m5_def m6_def m7_def m8_def q1_def q2_def q3_def
  show ?thesis
    unfolding checkElasticLoggingSetup_def Let_def
    apply (fold folds)
    apply (simp add: run_k_simps answers_as_empty_def split: prod.split sum.split)
    done
qed

text \<open>
  Claim C3 (first run). In a run against an empty backend whose calls succeed (the
  policy lookup is rejected, both existence checks answer \<^verbatim>\<open>false\<close>, every other call
  resolves) the function resolves with \<^verbatim>\<open>true\<close> and issues exactly seven calls: among
  them one \<^verbatim>\<open>ilm.putLifecycle\<close>, for the policy \<^verbatim>\<open>logs_policy\<close> with the phases hot, warm,
  cold and delete at minimum ages 0ms, 7d, 30d and 90d (hot: rollover at max age 7d or
  max size 5gb; warm: shrink to 1 shard, force-merge to 1 segment; cold: no action;
  delete: delete); one \<^verbatim>\<open>indices.putIndexTemplate\<close>, for the template \<^verbatim>\<open>logs_template\<close> with
  pattern \<^verbatim>\<open>logs-*\<close>, 1 shard, 1 replica, lifecycle name \<^verbatim>\<open>logs_policy\<close> and the four
  mapped fields; and one \<^verbatim>\<open>indices.create\<close>, for the index named after today.
\<close>

theorem first_run_creates_everything:
  assumes "(res, run) = checkElasticLoggingSetup new_Client now node s"
    and "\<forall>c\<in>set (calls run). answers_as_empty c"
  shows "res = Inr True \<and>
    map (\<lambda>c. (api c, request c)) (calls run) =
      [(ClusterHealth, JObject []),
       (IlmGetLifecycle, JObject [(''name'', JString ''logs_policy'')]),
       (IlmPutLifecycle, logs_policy_request),
       (IndicesExistsIndexTemplate, JObject [(''name'', JString ''logs_template'')]),
       (IndicesPutIndexTemplate, logs_template_request),
       (IndicesExists, JObject [(''index'', JString (indexName now))]),
       (IndicesCreate, JObject [(''index'', JString (indexName now))])] \<and>
    get_path [''name''] logs_policy_request = Some (JString ''logs_policy'') \<and>
    map_option keys (get_path [''body'', ''policy'', ''phases''] logs_policy_request)
      = Some [''hot'', ''warm'', ''cold'', ''delete''] \<and>
    get_path [''body'', ''policy'', ''phases'', ''hot''] logs_policy_request
      = Some (JObject [(''min_age'', JString ''0ms''),
           (''actions'', JObject [(''rollover'',
              JObject [(''max_age'', JString ''7d''), (''max_size'', JString ''5gb'')])])]) \<and>
    get_path [''body'', ''policy'', ''phases'', ''warm''] logs_policy_request
      = Some (JObject [(''min_age'', JString ''7d''),
           (''actions'', JObject [(''shrink'', JObject [(''number_of_shards'', JNumber 1)]),
              (''forcemerge'', JObject [(''max_num_segments'', JNumber 1)])])]) \<and>
    get_path [''body'', ''policy'', ''phases'', ''cold''] logs_policy_request
      = Some (JObject [(''min_age'', JString ''30d''), (''actions'', JObject [])]) \<and>
    get_path [''body'', ''policy'', ''phases'', ''delete''] logs_policy_request
      = Some (JObject [(''min_age'', JString ''90d''),
           (''actions'', JObject [(''delete'', JObject [])])]) \<and>
    get_path [''name''] logs_template_request = Some (JString ''logs_template'') \<and>
    get_path [''body'', ''index_patterns''] logs_template_request
      = Some (JArray [JString ''logs-*'']) \<and>
    get_path [''body'', ''template'', ''settings''] logs_template_request
      = Some (JObject [(''number_of_shards'', JNumber 1), (''number_of_replicas'', JNumber 1),
           (''lifecycle.name'', JString ''logs_policy'')]) \<and>
    get_path [''body'', ''template'', ''mappings'', ''properties''] logs_template_request
      = Some (JObject [(''@timestamp'', JObject [(''type'', JString ''date'')]),
           (''message'', JObject [(''type'', JString ''text'')]),
           (''level'', JObject [(''type'', JString ''keyword'')]),
           (''service'', JObject [(''type'', JString ''keyword'')])])"
proof -
  from assms(1) have R: "checkElasticLoggingSetup new_Client now node s = (res, run)"
    by simp
  from first_run_calls [where new_Client = new_Client and now = now and node = node and s = s]
    assms(2)
  have "res = Inr True \<and>
    map (\<lambda>c. (api c, request c)) (calls run) =
      [(ClusterHealth, JObject []),
       (IlmGetLifecycle, JObject [(''name'', JString ''logs_policy'')]),
       (IlmPutLifecycle, logs_policy_request),
       (IndicesExistsIndexTemplate, JObject [(''name'', JString ''logs_template'')]),
       (IndicesPutIndexTemplate, logs_template_request),
       (IndicesExists, JObject [(''index'', JString (indexName now))]),
       (IndicesCreate, JObject [(''index'', JString (indexName now))])]"
    by (simp add: R)
  with logs_policy_request_content logs_template_request_content show ?thesis
    by (simp only: simp_thms)
qed

theorem first_run_creates_everything_witness:
  "list_all answers_as_empty
     (calls (snd (checkElasticLoggingSetup memory_Client march_5th ''http://localhost:9200''
        empty_store))) \<and>
   fst (checkElasticLoggingSetup memory_Client march_5th ''http://localhost:9200'' empty_store)
     = Inr True \<and>
   map api (calls (snd (checkElasticLoggingSetup memory_Client march_5th
     ''http://localhost:9200'' empty_store)))
     = [ClusterHealth, IlmGetLifecycle, IlmPutLifecycle, IndicesExistsIndexTemplate,
        IndicesPutIndexTemplate, IndicesExists, IndicesCreate] \<and>
   map fst (policies (backend (snd (checkElasticLoggingSetup memory_Client march_5th
     ''http://localhost:9200'' empty_store)))) = [''logs_policy''] \<and>
   map fst (templates (backend (snd (checkElasticLoggingSetup memory_Client march_5th
     ''http://localhost:9200'' empty_store)))) = [''logs_template''] \<and>
   indices (backend (snd (checkElasticLoggingSetup memory_Client march_5th
     ''http://localhost:9200'' empty_store))) = [''logs-2024.03.05'']"
proof -
  let ?R = "checkElasticLoggingSetup memory_Client march_5th ''http://localhost:9200'' empty_store"
  have empty: "\<forall>c\<in>set (calls (snd ?R)). answers_as_empty c"
    by (simp add: run_on_empty_store answers_as_empty_def)
  have "(fst ?R, snd ?R) = ?R"
    by simp
  from first_run_creates_everything [OF this empty] empty show ?thesis
    by (simp add: run_on_empty_store ready_store_def list_all_iff)
qed

subsection \<open>Idempotence\<close>

text \<open>One run on a backend that is already set up.\<close>

lemma run_when_set_up:
  assumes "already_set_up (new_Client node) now P" and "P s"
  shows "case checkElasticLoggingSetup new_Client now node s of
           (res, run) \<Rightarrow>
             res = Inr True \<and> P (backend run) \<and>
             map api (calls run)
               = [ClusterHealth, IlmGetLifecycle, IndicesExistsIndexTemplate, IndicesExists] \<and>
             list_all (\<lambda>c. \<not> isl (outcome c)) (calls run)"
proof -
  let ?c = "new_Client node"
  let ?q1 = "JObject [(''name'', JString ''logs_policy'')]"
  let ?q2 = "JObject [(''name'', JString ''logs_template'')]"
  let ?q3 = "JObject [(''index'', JString (indexName now))]"
  note su = assms(1) [unfolded already_set_up_def, rule_format]
  obtain h s1 where h: "cluster_health ?c (JObject []) s = (Inr h, s1)" and s1: "P s1"
    using su [OF assms(2)] by (cases "cluster_health ?c (JObject []) s") auto
  obtain p s2 where p: "ilm_getLifecycle ?c ?q1 s1 = (Inr p, s2)" and s2: "P s2"
    using su [OF s1] by (cases "ilm_getLifecycle ?c ?q1 s1") auto
  obtain s3 where t: "indices_existsIndexTemplate ?c ?q2 s2 = (Inr True, s3)" and s3: "P s3"
    using su [OF s2] by (cases "indices_existsIndexTemplate ?c ?q2 s2") auto
  obtain s4 where x: "indices_exists ?c ?q3 s3 = (Inr True, s4)" and s4: "P s4"
    using su [OF s3] by (cases "indices_exists ?c ?q3 s3") auto
  show ?thesis
    unfolding checkElasticLoggingSetup_def Let_def
    by (simp add: run_k_simps h p t x s4)
qed

text \<open>
  Claim C2 (idempotence). On a backend that already has the policy, the template and
  today's index, and whose checks (the health probe and the three existence checks)
  succeed, the function resolves with \<^verbatim>\<open>true\<close> and its calls are exactly those four
  checks: no \<^verbatim>\<open>putLifecycle\<close>, \<^verbatim>\<open>putIndexTemplate\<close> or index creation is issued. A second
  run, started on the backend the first one left, does the same.
\<close>

theorem idempotent_when_set_up:
  assumes "already_set_up (new_Client node) now P" and "P s"
  shows "case checkElasticLoggingSetup new_Client now node s of
           (res1, run1) \<Rightarrow>
             (case checkElasticLoggingSetup new_Client now node (backend run1) of
                (res2, run2) \<Rightarrow>
                  res1 = Inr True \<and> res2 = Inr True \<and>
                  map api (calls run1)
                    = [ClusterHealth, IlmGetLifecycle, IndicesExistsIndexTemplate,
                       IndicesExists] \<and>
                  map api (calls run2)
                    = [ClusterHealth, IlmGetLifecycle, IndicesExistsIndexTemplate,
                       IndicesExists] \<and>
                  (\<forall>c\<in>set (calls run1 @ calls run2).
                     \<not> is_create (api c) \<and> \<not> isl (outcome c)))"
proof -
  obtain res1 run1 where R1: "checkElasticLoggingSetup new_Client now node s = (res1, run1)"
    by (cases "checkElasticLoggingSetup new_Client now node s")
  obtain res2 run2
    where R2: "checkElasticLoggingSetup new_Client now node (backend run1) = (res2, run2)"
    by (cases "checkElasticLoggingSetup new_Client now node (backend run1)")
  from run_when_set_up [where new_Client = new_Client and node = node and P = P and s = s,
      OF assms] R1
  have first: "res1 = Inr True" "P (backend run1)"
    "map api (calls run1)
       = [ClusterHealth, IlmGetLifecycle, IndicesExistsIndexTemplate, IndicesExists]"
    "list_all (\<lambda>c. \<not> isl (outcome c)) (calls run1)"
    by simp_all
  from run_when_set_up [where new_Client = new_Client and node = node and P = P
      and s = "backend run1", OF assms(1) first(2)] R2
  have second: "res2 = Inr True"
    "map api (calls run2)
       = [ClusterHealth, IlmGetLifecycle, IndicesExistsIndexTemplate, IndicesExists]"
    "list_all (\<lambda>c. \<not> isl (outcome c)) (calls run2)"
    by simp_all
  have no_create: "\<not> is_create (api c)"
    if "c \<in> set (calls run1 @ calls run2)" for c
  proof -
    from that have "api c \<in> set (map api (calls run1)) \<union> set (map api (calls run2))"
      by auto
    then show ?thesis
      unfolding first(3) second(2) by auto
  qed
  have resolved: "\<not> isl (outcome c)"
    if "c \<in> set (calls run1 @ calls run2)" for c
    using that first(4) second(3) by (auto simp: list_all_iff)
  show ?thesis
    using first(1,3) second(1,2) no_create resolved by (simp add: R1 R2)
qed

theorem idempotent_when_set_up_witness:
  "already_set_up (memory_Client ''http://localhost:9200'') march_5th (\<lambda>s. s = ready_store) \<and>
   fst (checkElasticLoggingSetup memory_Client march_5th ''http://localhost:9200'' ready_store)
     = Inr True \<and>
   backend (snd (checkElasticLoggingSetup memory_Client march_5th ''http://localhost:9200''
     ready_store)) = ready_store \<and>
   map api (calls (snd (checkElasticLoggingSetup memory_Client march_5th
     ''http://localhost:9200'' ready_store)))
     = [ClusterHealth, IlmGetLifecycle, IndicesExistsIndexTemplate, IndicesExists]"
proof -
  have su: "already_set_up (memory_Client ''http://localhost:9200'') march_5th
      (\<lambda>s. s = ready_store)"
    by (simp add: already_set_up_def client_defs ready_store_def indexName_march_5th)
  have "ready_store = ready_store"
    by simp
  from idempotent_when_set_up [where new_Client = memory_Client
      and node = "''http://localhost:9200''" and now = march_5th
      and P = "\<lambda>s. s = ready_store" and s = ready_store, OF su this] su
  show ?thesis
    by (simp add: run_on_ready_store)
qed

section \<open>The index suffix\<close>

lemma String_nat_digit: "n < 10 \<Longrightarrow> String_nat n = [digit n]"
  by (simp add: String_nat.simps [of n])

lemma String_nat_two_digits:
  assumes "10 \<le> n" and "n < 100"
  shows "String_nat n = [digit (n div 10), digit (n mod 10)]"
proof -
  from assms have "n div 10 < 10"
    by simp
  with assms(1) show ?thesis
    by (simp add: String_nat.simps [of n] String_nat_digit)
qed

lemma padStart_two_digits:
  assumes "n < 100"
  shows "padStart 2 ''0'' (String_nat n) = [digit (n div 10), digit (n mod 10)]"
proof (cases "n < 10")
  case True
  then show ?thesis
    by (simp add: String_nat_digit padStart_def digit_def)
next
  case False
  with assms show ?thesis
    by (simp add: String_nat_two_digits padStart_def)
qed

text \<open>
  Claim C6 (date suffix). The suffix and the index name are functions of the local
  calendar date alone. For 2024-03-05 (month getter 2, day 5) the suffix is
  \<^verbatim>\<open>2024.03.05\<close> and the index name \<^verbatim>\<open>logs-2024.03.05\<close>; the index name is always
  \<^verbatim>\<open>logs-\<close> followed by the suffix; and for every calendar date the suffix is the year, a
  period, the two digits of the month counted from 1, a period, and the two digits of
  the day, a leading zero included.
\<close>

theorem index_suffix_of_date:
  "indexSuffix \<lparr>getFullYear = 2024, getMonth = 2, getDate = 5\<rparr> = ''2024.03.05'' \<and>
   indexName \<lparr>getFullYear = 2024, getMonth = 2, getDate = 5\<rparr> = ''logs-2024.03.05'' \<and>
   (\<forall>today. indexName today = ''logs-'' @ indexSuffix today) \<and>
   (\<forall>today. getMonth today < 12 \<longrightarrow> 1 \<le> getDate today \<longrightarrow> getDate today \<le> 31 \<longrightarrow>
      indexSuffix today =
        String_int (getFullYear today) @ ''.'' @
        [digit ((getMonth today + 1) div 10), digit ((getMonth today + 1) mod 10)] @ ''.'' @
        [digit (getDate today div 10), digit (getDate today mod 10)])"
proof -
  have a: "indexSuffix \<lparr>getFullYear = 2024, getMonth = 2, getDate = 5\<rparr> = ''2024.03.05''"
    using indexSuffix_march_5th by (simp add: march_5th_def)
  have b: "indexName \<lparr>getFullYear = 2024, getMonth = 2, getDate = 5\<rparr> = ''logs-2024.03.05''"
    using indexName_march_5th by (simp add: march_5th_def)
  have c: "indexName today = ''logs-'' @ indexSuffix today" for today
    by (simp add: indexName_def indexSuffix_def Let_def)
  have d: "indexSuffix today =
        String_int (getFullYear today) @ ''.'' @
        [digit ((getMonth today + 1) div 10), digit ((getMonth today + 1) mod 10)] @ ''.'' @
        [digit (getDate today div 10), digit (getDate today mod 10)]"
    if "getMonth today < 12" "1 \<le> getDate today" "getDate today \<le> 31" for today
  proof -
    from that have "getMonth today + 1 < 100" "getDate today < 100"
      by simp_all
    then show ?thesis
      by (simp add: indexSuffix_def Let_def padStart_two_digits)
  qed
  from a b c d show ?thesis
    by blast
qed

theorem index_suffix_of_date_witness:
  "getMonth \<lparr>getFullYear = 1999, getMonth = 11, getDate = 31\<rparr> < 12 \<and>
   indexSuffix \<lparr>getFullYear = 1999, getMonth = 11, getDate = 31\<rparr> = ''1999.12.31'' \<and>
   indexName \<lparr>getFullYear = 1999, getMonth = 11, getDate = 31\<rparr> = ''logs-1999.12.31''"
proof -
  have y: "String_int 1999 = ''1999''"
    by code_simp
  from index_suffix_of_date show ?thesis
    by (simp add: y digit_def)
qed

section \<open>Properties of \<^verbatim>\<open>winstonLogger\<close>\<close>

text \<open>
  Claim C8 (remote sink). The logger has exactly one Elasticsearch transport. Its
  minimum level is the level argument, or \<^verbatim>\<open>info\<close> when the argument is undefined or the
  empty string; its client is the one constructed for the given node; its index prefix
  is \<^verbatim>\<open>logs\<close>, its suffix pattern \<^verbatim>\<open>YYYY.MM.DD\<close>, its source the service name, its buffer
  limit 100 and its flush interval 500.
\<close>

theorem remote_sink_configuration:
  "remote_sinks (transports (options (fst (winstonLogger new_Client now node name lvl)))) =
     [\<lparr>level = (if lvl = None \<or> lvl = Some [] then ''info'' else the lvl),
       client = new_Client node,
       indexPrefix = ''logs'',
       indexSuffixPattern = ''YYYY.MM.DD'',
       source = name,
       bufferLimit = 100,
       flushInterval = 500\<rparr>]"
proof (cases lvl)
  case None
  then show ?thesis
    by (simp add: winstonLogger_def Let_def)
next
  case (Some l)
  then show ?thesis
    by (cases l) (simp_all add: winstonLogger_def Let_def)
qed

theorem remote_sink_configuration_witness:
  "map (\<lambda>t. (level t, indexPrefix t, indexSuffixPattern t, source t, bufferLimit t,
            flushInterval t))
     (remote_sinks (transports (options (fst
        (winstonLogger memory_Client march_5th ''http://localhost:9200'' ''orders''
           (Some []))))))
     = [(''info'', ''logs'', ''YYYY.MM.DD'', ''orders'', 100, 500)] \<and>
   map level
     (remote_sinks (transports (options (fst
        (winstonLogger memory_Client march_5th ''http://localhost:9200'' ''orders''
           (Some ''debug''))))))
     = [''debug'']"
  using
    remote_sink_configuration
      [of memory_Client march_5th "''http://localhost:9200''" "''orders''" "Some []"]
    remote_sink_configuration
      [of memory_Client march_5th "''http://localhost:9200''" "''orders''" "Some ''debug''"]
  by simp

text \<open>
  Claim C9, as stated: an undefined level leaves the logger's overall level unset rather
  than \<^verbatim>\<open>info\<close>. With the level argument undefined, the overall level of the returned
  logger is \<^verbatim>\<open>info\<close>.
\<close>

theorem undefined_level_is_info_counterexample:
  "logger_level (options (fst
     (winstonLogger memory_Client march_5th ''http://localhost:9200'' ''orders'' None))) = None \<and>
   overall_level (fst
     (winstonLogger memory_Client march_5th ''http://localhost:9200'' ''orders'' None))
     = ''info''"
  by (simp add: winstonLogger_def Let_def overall_level_def)

text \<open>
  Claim C9, amended. The \<^verbatim>\<open>info\<close> default written in \<^verbatim>\<open>winstonLogger\<close> applies to the remote
  transport only: \<^verbatim>\<open>createLogger\<close> is handed the level argument as it came. With the
  empty string as level, the transport has level \<^verbatim>\<open>info\<close> and the overall level of the
  logger is the empty string, not \<^verbatim>\<open>info\<close>. With an undefined level, the overall level
  of the logger is \<^verbatim>\<open>info\<close> all the same, by the default of the facade.
\<close>

theorem logger_own_level:
  "case winstonLogger new_Client now node name lvl of
     (logger, startup) \<Rightarrow>
       logger_level (options logger) = lvl \<and>
       map level (remote_sinks (transports (options logger))) = [or_default lvl ''info''] \<and>
       overall_level logger = (case lvl of None \<Rightarrow> ''info'' | Some l \<Rightarrow> l) \<and>
       (lvl = Some [] \<longrightarrow>
          map level (remote_sinks (transports (options logger))) = [''info''] \<and>
          overall_level logger = [] \<and> overall_level logger \<noteq> ''info'')"
  by (auto simp: winstonLogger_def Let_def overall_level_def)

theorem logger_own_level_witness:
  "map level (remote_sinks (transports (options (fst
     (winstonLogger memory_Client march_5th ''http://localhost:9200'' ''orders'' (Some []))))))
     = [''info''] \<and>
   overall_level (fst
     (winstonLogger memory_Client march_5th ''http://localhost:9200'' ''orders'' (Some [])))
     = []"
  using logger_own_level [where new_Client = memory_Client and now = march_5th
      and node = "''http://localhost:9200''" and name = "''orders''" and lvl = "Some []"]
  by (simp add: case_prod_beta)

text \<open>
  Claim C7 (service tag and level gate). For a service name and a minimum level of the
  facade's level table, the options of the returned handle carry the default field
  \<^verbatim>\<open>service\<close> with the service name and the minimum level as given. Under the facade's
  emission, every record the handle emits has \<^verbatim>\<open>service\<close> equal to the service name and
  a level not below the minimum; a call below the minimum emits nothing; a call at or
  above it emits the record with the default field.
\<close>

theorem logger_tags_and_gates:
  assumes "priority minLevel = Some m"
  shows "case winstonLogger new_Client now node name (Some minLevel) of
           (logger, startup) \<Rightarrow>
             defaultMeta (options logger) = [(''service'', name)] \<and>
             logger_level (options logger) = Some minLevel \<and>
             startup = [(''info'', ''Logger initialized for service: '' @ name)] \<and>
             (\<forall>c r. logger_log priority logger c = Some r \<longrightarrow>
                map_of (meta r) ''service'' = Some name \<and>
                (\<exists>p. priority (fst c) = Some p \<and> p \<le> m)) \<and>
             (\<forall>c p. priority (fst c) = Some p \<longrightarrow> m < p \<longrightarrow>
                logger_log priority logger c = None) \<and>
             (\<forall>c p. priority (fst c) = Some p \<longrightarrow> p \<le> m \<longrightarrow>
                logger_log priority logger c
                  = Some \<lparr>record_level = fst c, message = snd c,
                          meta = [(''service'', name)]\<rparr>)"
  using assms
  by (auto simp: winstonLogger_def Let_def logger_log_def split: option.splits if_splits)

theorem logger_tags_and_gates_witness:
  "npm_levels ''warn'' = Some 1 \<and>
   logger_log npm_levels
     (fst (winstonLogger memory_Client march_5th ''http://localhost:9200'' ''orders''
        (Some ''warn'')))
     (''error'', ''payment failed'')
     = Some \<lparr>record_level = ''error'', message = ''payment failed'',
             meta = [(''service'', ''orders'')]\<rparr> \<and>
   logger_log npm_levels
     (fst (winstonLogger memory_Client march_5th ''http://localhost:9200'' ''orders''
        (Some ''warn'')))
     (''info'', ''Logger initialized for service: orders'') = None"
proof -
  have w: "npm_levels ''warn'' = Some 1"
    by (simp add: npm_levels_def)
  have e: "npm_levels ''error'' = Some 0" and i: "npm_levels ''info'' = Some 2"
    by (simp_all add: npm_levels_def)
  from logger_tags_and_gates [where new_Client = memory_Client and now = march_5th
      and node = "''http://localhost:9200''" and name = "''orders''"
      and priority = npm_levels and minLevel = "''warn''", OF w] w e i
  show ?thesis
    by (auto simp: case_prod_beta)
qed

end
